theory Spec2Isabelle
  imports Complex_Main
begin

section \<open>Common Python values\<close>

text \<open>
  Exceptions of the Python sources are values. Only the exception classes that the
  modelled code paths can raise are listed; \<open>OtherException\<close> stands for any other
  subclass of \<open>Exception\<close> raised by a collaborator (network, browser, database).
\<close>

datatype exn =
    AttributeError string
  | NameError string
  | TypeError string
  | ValueError string
  | OtherException string

text \<open>
  The values stored in an analysis-result dictionary: numbers (Python \<open>int\<close> and
  \<open>float\<close>, modelled exactly as rationals), strings and time stamps.
\<close>

datatype pyval = Num rat | Str string | Timestamp rat

type_synonym pydict = "string \<rightharpoonup> pyval"

section \<open>Letter grade of a stored score (app/models/__init__.py, WebsiteAnalysis.overall_grade)\<close>

datatype grade = A_plus | A | B | C | D | F




section \<open>Composite score (app/services/analyzer.py, calculate_overall_score)\<close>

text \<open>
  The weights dictionary, in insertion order (the order \<open>weights.items()\<close> iterates).
\<close>

definition weights :: "(string \<times> rat) list" where
  "weights =
     [(''seo_score'', 25 / 100),
      (''security_score'', 20 / 100),
      (''performance_score'', 20 / 100),
      (''credibility_score'', 20 / 100),
      (''basic_score'', 15 / 100)]"

text \<open>
  The loop over the weights: \<open>total_score\<close> and \<open>total_weight\<close> are threaded
  through. A stored value that is not a number makes \<open>analysis_data[component] * weight\<close>
  raise \<open>TypeError\<close> (the weight is a float).
\<close>

fun score_loop :: "pydict \<Rightarrow> (string \<times> rat) list \<Rightarrow> rat \<times> rat \<Rightarrow> exn + (rat \<times> rat)" where
  "score_loop analysis_data [] acc = Inr acc"
| "score_loop analysis_data ((component, weight) # rest) (total_score, total_weight) =
     (case analysis_data component of
        None \<Rightarrow> score_loop analysis_data rest (total_score, total_weight)
      | Some (Num v) \<Rightarrow>
          score_loop analysis_data rest (total_score + v * weight, total_weight + weight)
      | Some other \<Rightarrow> Inl (TypeError ''unsupported operand type(s) for *''))"

text \<open>
  Python's \<open>int()\<close> on a float truncates towards zero. The arithmetic here is exact.
  The float arithmetic of the source gives the same result wherever its operations are
  exact, as at the input evaluated below; where they round, \<open>int()\<close> can truncate to
  a neighbouring integer, and where they overflow, \<open>int()\<close> raises
  \<open>OverflowError\<close>.
\<close>

definition py_int :: "rat \<Rightarrow> int" where
  "py_int q = (if q \<ge> 0 then \<lfloor>q\<rfloor> else \<lceil>q\<rceil>)"

definition calculate_overall_score :: "pydict \<Rightarrow> exn + int" where
  "calculate_overall_score analysis_data =
     (case score_loop analysis_data weights (0, 0) of
        Inl e \<Rightarrow> Inl e
      | Inr (total_score, total_weight) \<Rightarrow>
          if total_weight > 0
          then Inr (min 100 (py_int ((total_score / total_weight) * 100)))
          else Inr 0)"

text \<open>
  The weighted mean the specification describes, written from its words: the mean of
  the sub-scores present, with the weights renormalised by the sum of the weights
  present, clamped to \<open>[0, 100]\<close>; the empty selection gives 0.
\<close>

definition spec_weighted_mean :: "(string \<rightharpoonup> rat) \<Rightarrow> rat" where
  "spec_weighted_mean scores =
     (let present = filter (\<lambda>(c, w). scores c \<noteq> None) weights;
          tw = sum_list (map snd present);
          ts = sum_list (map (\<lambda>(c, w). the (scores c) * w) present)
      in if tw > 0 then max 0 (min 100 (ts / tw)) else 0)"

section \<open>Scroll loop of the collector (app/services/scraper.py, scroll_and_collect)\<close>

text \<open>
  The local variables of the loop, and \<open>scroll_steps\<close>, the number of iterations
  run so far. One iteration makes one round of harness calls (extract the visible
  items, scroll, read the scroll height), so \<open>scroll_steps\<close> counts these rounds.
\<close>

record 'a scroll_state =
  collected :: "'a list"
  last_height :: int
  no_new_results_count :: nat
  scroll_steps :: nat

definition max_no_new_results :: nat where
  "max_no_new_results = 3"

text \<open>
  The harness is a function from the iteration number to what the browser shows in that
  iteration: an exception raised by one of the driver calls, or the visible results
  together with the scroll height read after scrolling.
\<close>

type_synonym 'a feed = "nat \<Rightarrow> exn + ('a list \<times> int)"

definition scroll_step :: "'a list \<Rightarrow> int \<Rightarrow> 'a scroll_state \<Rightarrow> 'a scroll_state" where
  "scroll_step current_results new_height st =
     (let new_results = filter (\<lambda>r. r \<notin> set (collected st)) current_results;
          st1 = (if new_results = []
                 then st\<lparr>no_new_results_count := no_new_results_count st + 1\<rparr>
                 else st\<lparr>collected := collected st @ new_results, no_new_results_count := 0\<rparr>);
          st2 = (if new_height = last_height st1
                 then st1\<lparr>no_new_results_count := no_new_results_count st1 + 1\<rparr>
                 else st1)
      in st2\<lparr>last_height := new_height, scroll_steps := scroll_steps st2 + 1\<rparr>)"

definition scroll_continues :: "int \<Rightarrow> 'a scroll_state \<Rightarrow> bool" where
  "scroll_continues max_results st \<longleftrightarrow>
     int (length (collected st)) < max_results \<and> no_new_results_count st < max_no_new_results"

function scroll_loop :: "'a feed \<Rightarrow> int \<Rightarrow> 'a scroll_state \<Rightarrow> exn + 'a scroll_state" where
  "scroll_loop feed max_results st =
     (if scroll_continues max_results st
      then (case feed (scroll_steps st) of
              Inl e \<Rightarrow> Inl e
            | Inr (current_results, new_height) \<Rightarrow>
                scroll_loop feed max_results (scroll_step current_results new_height st))
      else Inr st)"
  by pat_completeness auto

text \<open>Python's \<open>xs[:n]\<close>: a negative bound counts from the end.\<close>

definition py_slice_to :: "int \<Rightarrow> 'a list \<Rightarrow> 'a list" where
  "py_slice_to n xs = (if n \<ge> 0 then take (nat n) xs else take (length xs - nat (- n)) xs)"

definition scroll_init :: "'a scroll_state" where
  "scroll_init = \<lparr>collected = [], last_height = 0, no_new_results_count = 0, scroll_steps = 0\<rparr>"

definition scroll_and_collect :: "'a feed \<Rightarrow> int \<Rightarrow> exn + 'a list" where
  "scroll_and_collect feed max_results =
     (case scroll_loop feed max_results scroll_init of
        Inl e \<Rightarrow> Inl e
      | Inr st \<Rightarrow> Inr (py_slice_to max_results (collected st)))"

text \<open>
  A feed that shows the same two items in every iteration, at a constant scroll height,
  and the state of the loop after its first iteration on that feed.
\<close>

definition stalled_feed :: "string feed" where
  "stalled_feed = (\<lambda>i. Inr ([''Cafe A'', ''Cafe B''], 800))"

definition after_first_step :: "string scroll_state" where
  "after_first_step =
     \<lparr>collected = [''Cafe A'', ''Cafe B''], last_height = 800,
      no_new_results_count = 0, scroll_steps = 1\<rparr>"

section \<open>Retry of a scraping task (tasks/scraping.py, scrape_keyword_task)\<close>

record keyword_row =
  kw_text :: string
  kw_status :: string
  kw_total_results :: nat

text \<open>
  What the task touches: the keyword table, the notifications queued by
  \<open>NotificationService\<close> (kind and text), and, kept by the task queue, the number of
  executions of the task body and the delays (in seconds) before each re-execution.
\<close>

record task_world =
  kw_table :: "nat \<rightharpoonup> keyword_row"
  notifications :: "(string \<times> string) list"
  attempts :: nat
  retry_delays :: "nat list"







definition set_status :: "nat \<Rightarrow> string \<Rightarrow> task_world \<Rightarrow> task_world" where
  "set_status keyword_id s w =
     (case kw_table w keyword_id of
        None \<Rightarrow> w
      | Some k \<Rightarrow> w\<lparr>kw_table := (kw_table w)(keyword_id \<mapsto> k\<lparr>kw_status := s\<rparr>)\<rparr>)"









section \<open>Optimal scraping time (app/services/scheduler.py)\<close>

text \<open>
  The columns of a \<open>SearchResult\<close> row that the scheduler reads; both are nullable.
\<close>

record search_result =
  sr_title :: "string option"
  sr_website :: "string option"

text \<open>
  Truth value of a nullable string column: \<open>None\<close> and the empty string are false.
  The success rate is the exact quotient; the float quotient of the source compares
  with 0.5 in the same way for every list of fewer than \<open>2^53\<close> rows, which
  is why the theorem below is stated for such lists.
\<close>

definition truthy :: "string option \<Rightarrow> bool" where
  "truthy v = (case v of None \<Rightarrow> False | Some s \<Rightarrow> s \<noteq> [])"

definition calculate_success_rate :: "search_result list \<Rightarrow> rat" where
  "calculate_success_rate results =
     (if results = [] then 0
      else of_nat (length (filter (\<lambda>r. truthy (sr_title r) \<and> truthy (sr_website r)) results))
           / of_nat (length results))"

definition get_base_scraping_time :: "string \<Rightarrow> int" where
  "get_base_scraping_time priority =
     (if priority = ''high'' then 2
      else if priority = ''medium'' then 4
      else if priority = ''low'' then 6
      else 4)"

text \<open>
  \<open>str.split()\<close> without arguments: the words between runs of white space. The white
  space characters are those of Python below code point 256.
\<close>

definition is_space :: "char \<Rightarrow> bool" where
  "is_space c = (of_char c \<in> {9, 10, 11, 12, 13, 28, 29, 30, 31, 32, 133, 160 :: nat})"

fun split_acc :: "string \<Rightarrow> string \<Rightarrow> string list" where
  "split_acc cur [] = (if cur = [] then [] else [cur])"
| "split_acc cur (c # cs) =
     (if is_space c
      then (if cur = [] then split_acc [] cs else cur # split_acc [] cs)
      else split_acc (cur @ [c]) cs)"

definition py_split :: "string \<Rightarrow> string list" where
  "py_split s = split_acc [] s"

text \<open>
  \<open>query\<close> is the outcome of the query for the keyword's rows, the keyword's history:
  the exception it raises, or the rows. The exception is not caught.
\<close>

definition calculate_keyword_adjustment :: "string \<Rightarrow> exn + search_result list \<Rightarrow> exn + int" where
  "calculate_keyword_adjustment keyword_text query =
     (case query of
        Inl e \<Rightarrow> Inl e
      | Inr previous_results \<Rightarrow>
          (let adjustment = 0;
               adjustment = (if previous_results \<noteq> []
                                \<and> calculate_success_rate previous_results < 1 / 2
                             then adjustment + 2 else adjustment);
               word_count = length (py_split keyword_text)
           in Inr (if word_count > 3 then adjustment - 1 else adjustment)))"

text \<open>The format \<open>:02d\<close>: decimal digits, padded with zeros to width two.\<close>

definition digit_char :: "nat \<Rightarrow> char" where
  "digit_char d = ''0123456789'' ! d"

fun digits :: "nat \<Rightarrow> string" where
  "digits n = (if n < 10 then [digit_char n] else digits (n div 10) @ [digit_char (n mod 10)])"

definition fmt_02d :: "int \<Rightarrow> string" where
  "fmt_02d i =
     (if i < 0 then CHR ''-'' # digits (nat (- i))
      else if i < 10 then CHR ''0'' # digits (nat i)
      else digits (nat i))"

text \<open>
  \<open>py_hash\<close> is the built-in \<open>hash\<close> on strings of the interpreter process that runs
  the call. Python salts the hash of strings with a seed chosen when the process
  starts, so two processes have different hash functions.
\<close>

definition calculate_optimal_time ::
  "(string \<Rightarrow> int) \<Rightarrow> string \<Rightarrow> exn + search_result list \<Rightarrow> string \<Rightarrow> exn + string" where
  "calculate_optimal_time py_hash keyword_text query priority =
     (let base_hour = get_base_scraping_time priority
      in case calculate_keyword_adjustment keyword_text query of
           Inl e \<Rightarrow> Inl e
         | Inr adjustment \<Rightarrow>
             (let adjusted_hour = (base_hour + adjustment) mod 24;
                  random_minute = py_hash keyword_text mod 60
              in Inr (fmt_02d adjusted_hour @ '':'' @ fmt_02d random_minute)))"

text \<open>
  The hash functions of two CPython 3.11 processes, started with the hash seeds 1 and 2,
  at the one string used below: the values of \<open>hash('coffee shops in Denver')\<close> there.
\<close>

definition hash_in_process_1 :: "string \<Rightarrow> int" where
  "hash_in_process_1 s = (if s = ''coffee shops in Denver'' then 3044961630712917774 else 0)"

definition hash_in_process_2 :: "string \<Rightarrow> int" where
  "hash_in_process_2 s = (if s = ''coffee shops in Denver'' then - 3159120964688884705 else 0)"

section \<open>Two-tier cache (optimization/__init__.py, CacheManager)\<close>

text \<open>
  A local entry is a value with its expiry time, \<open>None\<close> for an entry that never
  expires. Times are seconds, as \<open>time.time()\<close> gives them. Values are strings, as the
  Redis client is created with \<open>decode_responses\<close>. \<open>has_redis\<close> says that
  \<open>redis_client\<close> is not \<open>None\<close>, that is, that a server was reachable at
  construction. The Redis server is outside the cache manager: \<open>get\<close> is given the
  outcome of its call to the server, and \<open>set\<close> gives the command it sends.
  \<open>add_seconds t n\<close> is the float sum \<open>t + n\<close> of a clock reading and a number of
  seconds, as the interpreter computes it.
\<close>

record cache_manager =
  local_cache :: "string \<rightharpoonup> (string \<times> rat option)"
  has_redis :: bool

datatype redis_command = SETEX string int string | SET string string

definition live :: "rat \<Rightarrow> rat option \<Rightarrow> bool" where
  "live now expiry = (case expiry of None \<Rightarrow> True | Some t \<Rightarrow> now < t)"

text \<open>
  The second half of \<open>get\<close>: the lookup in Redis. \<open>redis_reply\<close> is the outcome of
  \<open>redis_client.get(key)\<close>: an exception, which is logged and swallowed, or the
  server's answer. A value that is not empty is stored in the local cache for five
  minutes from \<open>later\<close>, the clock reading after the answer.
\<close>

definition get_from_redis ::
  "(rat \<Rightarrow> int \<Rightarrow> rat) \<Rightarrow> rat \<Rightarrow> exn + string option \<Rightarrow> string \<Rightarrow> cache_manager
     \<Rightarrow> string option \<times> cache_manager" where
  "get_from_redis add_seconds later redis_reply key cm =
     (if has_redis cm
      then (case redis_reply of
              Inl e \<Rightarrow> (None, cm)
            | Inr None \<Rightarrow> (None, cm)
            | Inr (Some value) \<Rightarrow>
                if value \<noteq> []
                then (Some value,
                      cm\<lparr>local_cache :=
                           (local_cache cm)(key \<mapsto> (value, Some (add_seconds later 300)))\<rparr>)
                else (None, cm))
      else (None, cm))"

definition CacheManager_get ::
  "(rat \<Rightarrow> int \<Rightarrow> rat) \<Rightarrow> rat \<Rightarrow> rat \<Rightarrow> exn + string option \<Rightarrow> string \<Rightarrow> cache_manager
     \<Rightarrow> string option \<times> cache_manager" where
  "CacheManager_get add_seconds now later redis_reply key cm =
     (case local_cache cm key of
        Some (value, expiry) \<Rightarrow>
          if live now expiry then (Some value, cm)
          else get_from_redis add_seconds later redis_reply key
                 (cm\<lparr>local_cache := (local_cache cm)(key := None)\<rparr>)
      | None \<Rightarrow> get_from_redis add_seconds later redis_reply key cm)"

text \<open>
  \<open>set\<close>: \<open>expire_seconds = 0\<close> is false in Python and stores an entry that never
  expires. The local expiry time is computed from the clock reading before the command
  is sent to Redis. Whatever the server does with the command, also when the call
  raises, the cache manager is left in the same state.
\<close>

definition CacheManager_set ::
  "(rat \<Rightarrow> int \<Rightarrow> rat) \<Rightarrow> rat \<Rightarrow> string \<Rightarrow> string \<Rightarrow> int \<Rightarrow> cache_manager
     \<Rightarrow> cache_manager \<times> redis_command option" where
  "CacheManager_set add_seconds now key value expire_seconds cm =
     (let expiry = (if expire_seconds \<noteq> 0 then Some (add_seconds now expire_seconds) else None);
          cm1 = cm\<lparr>local_cache := (local_cache cm)(key \<mapsto> (value, expiry))\<rparr>
      in if has_redis cm1
         then (if expire_seconds \<noteq> 0
               then (cm1, Some (SETEX key expire_seconds value))
               else (cm1, Some (SET key value)))
         else (cm1, None))"

text \<open>
  An empty cache manager with a Redis client, and one without; and the sum of a clock
  reading and a number of seconds where the float sum is exact.
\<close>

definition exact_add :: "rat \<Rightarrow> int \<Rightarrow> rat" where
  "exact_add t n = t + of_int n"

definition redis_cache :: cache_manager where
  "redis_cache = \<lparr>local_cache = Map.empty, has_redis = True\<rparr>"

definition local_only_cache :: cache_manager where
  "local_only_cache = \<lparr>local_cache = Map.empty, has_redis = False\<rparr>"

section \<open>Comprehensive analysis (app/services/analyzer.py, comprehensive_analysis)\<close>

text \<open>
  The names bound in the body of class \<open>IntelligentWebsiteAnalyzer\<close> and the instance
  attributes set by \<open>__init__\<close>. The class has no base class other than \<open>object\<close>,
  and no other file adds to it. Looking up any other name on \<open>self\<close> raises
  \<open>AttributeError\<close>.
\<close>

definition IntelligentWebsiteAnalyzer_names :: "string list" where
  "IntelligentWebsiteAnalyzer_names =
     [''__init__'', ''comprehensive_analysis'', ''basic_website_analysis'',
      ''technical_analysis'', ''seo_analysis'', ''security_analysis'',
      ''performance_analysis'', ''business_credibility_analysis'',
      ''calculate_overall_score'', ''analyze_ssl_certificate'',
      ''detect_technology_stack'', ''measure_load_time'',
      ''analysis_cache'', ''cache_timeout'']"

definition analyzer_getattr :: "string \<Rightarrow> exn + unit" where
  "analyzer_getattr name =
     (if name \<in> set IntelligentWebsiteAnalyzer_names then Inr () else Inl (AttributeError name))"

record analyzer =
  analysis_cache :: "string \<rightharpoonup> (pydict \<times> rat)"

definition cache_timeout :: rat where
  "cache_timeout = 3600"

text \<open>
  The six passes run in order, each result merged into \<open>analysis_results\<close> by
  \<open>update\<close>; the first pass that raises ends the \<open>try\<close> block. A pass is given by its
  outcome for the URL: the exception it lets escape, or the dictionary it returns.
\<close>

fun run_passes :: "(exn + pydict) list \<Rightarrow> pydict \<Rightarrow> exn + pydict" where
  "run_passes [] analysis_results = Inr analysis_results"
| "run_passes (p # ps) analysis_results =
     (case p of
        Inl e \<Rightarrow> Inl e
      | Inr d \<Rightarrow> run_passes ps (analysis_results ++ d))"

text \<open>
  The \<open>try\<close> block. \<open>assign_grade\<close> is what the method of that name would compute if
  the lookup on \<open>self\<close> found one.
\<close>

definition analysis_try_block ::
  "(int \<Rightarrow> exn + pyval) \<Rightarrow> rat \<Rightarrow> string \<Rightarrow> (exn + pydict) list \<Rightarrow> analyzer
     \<Rightarrow> exn + (pydict \<times> analyzer)" where
  "analysis_try_block assign_grade now url passes an =
     (case run_passes passes Map.empty of
        Inl e \<Rightarrow> Inl e
      | Inr r \<Rightarrow>
          (case calculate_overall_score r of
             Inl e \<Rightarrow> Inl e
           | Inr overall \<Rightarrow>
               (let r1 = r(''overall_score'' \<mapsto> Num (of_int overall));
                    r2 = r1(''analysis_timestamp'' \<mapsto> Timestamp now)
                in case analyzer_getattr ''assign_grade'' of
                     Inl e \<Rightarrow> Inl e
                   | Inr u \<Rightarrow>
                       (case assign_grade overall of
                          Inl e \<Rightarrow> Inl e
                        | Inr g \<Rightarrow>
                            (let r3 = r2(''grade'' \<mapsto> g)
                             in Inr (r3, an\<lparr>analysis_cache :=
                                            (analysis_cache an)(url \<mapsto> (r3, now))\<rparr>))))))"

text \<open>
  The whole method: a fresh cache entry is returned as it is; otherwise the \<open>try\<close>
  block runs, and its \<open>except Exception\<close> handler calls \<open>self.get_fallback_analysis\<close>.
  An exception raised in the handler leaves the method.
\<close>

definition comprehensive_analysis ::
  "(int \<Rightarrow> exn + pyval) \<Rightarrow> (string \<Rightarrow> exn + pydict) \<Rightarrow> rat \<Rightarrow> string \<Rightarrow> (exn + pydict) list
     \<Rightarrow> analyzer \<Rightarrow> (exn + pydict) \<times> analyzer" where
  "comprehensive_analysis assign_grade get_fallback_analysis now url passes an =
     (let fresh = (case analysis_cache an url of
                     None \<Rightarrow> None
                   | Some (cached_data, timestamp) \<Rightarrow>
                       if now - timestamp < cache_timeout then Some cached_data else None)
      in case fresh of
           Some cached_data \<Rightarrow> (Inr cached_data, an)
         | None \<Rightarrow>
             (case analysis_try_block assign_grade now url passes an of
                Inr (analysis_results, an') \<Rightarrow> (Inr analysis_results, an')
              | Inl e \<Rightarrow>
                  (case analyzer_getattr ''get_fallback_analysis'' of
                     Inl e' \<Rightarrow> (Inl e', an)
                   | Inr u \<Rightarrow> (get_fallback_analysis url, an))))"

definition new_analyzer :: analyzer where
  "new_analyzer = \<lparr>analysis_cache = Map.empty\<rparr>"

definition six_good_passes :: "(exn + pydict) list" where
  "six_good_passes =
     [Inr [''load_time'' \<mapsto> Num 1], Inr Map.empty, Inr [''seo_score'' \<mapsto> Num 70],
      Inr [''security_score'' \<mapsto> Num 50], Inr [''performance_score'' \<mapsto> Num 60],
      Inr [''credibility_score'' \<mapsto> Num 85]]"

text \<open>Stand-ins for the two methods the class does not define, for the concrete run below.\<close>

definition some_assign_grade :: "int \<Rightarrow> exn + pyval" where
  "some_assign_grade = (\<lambda>score. Inr (Str ''A''))"

definition some_fallback_analysis :: "string \<Rightarrow> exn + pydict" where
  "some_fallback_analysis = (\<lambda>url. Inr Map.empty)"

section \<open>Contact extraction (app/services/scraper.py, extract_contact_info)\<close>

text \<open>
  The names bound at module level in \<open>app/services/scraper.py\<close> (by its \<open>import\<close>,
  assignment and \<open>class\<close> statements). The only \<open>import re\<close> of the file is inside
  the body of \<open>extract_ratings\<close>, where it binds a local variable of that function.
  A name that is neither local, nor bound in the module, nor a built-in raises
  \<open>NameError\<close>; \<open>re\<close> is not a built-in.
\<close>

definition scraper_module_globals :: "string list" where
  "scraper_module_globals =
     [''random'', ''time'', ''logging'', ''webdriver'', ''By'', ''WebDriverWait'', ''EC'',
      ''TimeoutException'', ''NoSuchElementException'', ''SearchResult'', ''Keyword'',
      ''get_random_delay'', ''rotate_user_agent'', ''logger'', ''AdvancedScraperService'']"

definition scraper_global :: "string \<Rightarrow> exn + unit" where
  "scraper_global name =
     (if name \<in> set scraper_module_globals then Inr () else Inl (NameError name))"

text \<open>
  The regular patterns, in the order of the source: the three phone patterns and the
  address pattern. \<open>findall\<close> stands for \<open>re.findall\<close>: for a pattern with groups
  it gives tuples of groups (a single group: that group's text), otherwise the matched
  texts.
\<close>

datatype pattern = Phone1 | Phone2 | Phone3 | Address

datatype re_match = Text string | Groups "string list"

definition phone_patterns :: "pattern list" where
  "phone_patterns = [Phone1, Phone2, Phone3]"

fun phone_loop :: "(pattern \<Rightarrow> string \<Rightarrow> re_match list) \<Rightarrow> string \<Rightarrow> pattern list
    \<Rightarrow> (string \<rightharpoonup> string) \<Rightarrow> exn + (string \<rightharpoonup> string)" where
  "phone_loop findall text_content [] contact_data = Inr contact_data"
| "phone_loop findall text_content (p # ps) contact_data =
     (case scraper_global ''re'' of
        Inl e \<Rightarrow> Inl e
      | Inr u \<Rightarrow>
          (case findall p text_content of
             [] \<Rightarrow> phone_loop findall text_content ps contact_data
           | Text m # ms \<Rightarrow> Inr (contact_data(''phone'' \<mapsto> m))
           | Groups [] # ms \<Rightarrow> Inl (OtherException ''IndexError'')
           | Groups (g # gs) # ms \<Rightarrow> Inr (contact_data(''phone'' \<mapsto> g))))"

definition match_text :: "re_match \<Rightarrow> string" where
  "match_text m = (case m of Text t \<Rightarrow> t | Groups gs \<Rightarrow> concat gs)"

text \<open>
  \<open>item_text\<close> is the outcome of reading \<open>item.text\<close>. Every exception of the
  \<open>try\<close> block is caught and logged, and the dictionary built so far is returned; an
  exception in the phone loop or before it leaves the dictionary empty.
\<close>

definition extract_contact_info ::
  "(pattern \<Rightarrow> string \<Rightarrow> re_match list) \<Rightarrow> exn + string \<Rightarrow> (string \<rightharpoonup> string)" where
  "extract_contact_info findall item_text =
     (case item_text of
        Inl e \<Rightarrow> Map.empty
      | Inr text_content \<Rightarrow>
          (case phone_loop findall text_content phone_patterns Map.empty of
             Inl e \<Rightarrow> Map.empty
           | Inr contact_data \<Rightarrow>
               (case scraper_global ''re'' of
                  Inl e \<Rightarrow> contact_data
                | Inr u \<Rightarrow>
                    (case findall Address text_content of
                       [] \<Rightarrow> contact_data
                     | m # ms \<Rightarrow> contact_data(''address'' \<mapsto> match_text m)))))"

section \<open>CAPTCHA handling and the collection job (app/services/scraper.py)\<close>

text \<open>
  The page is what \<open>find_elements\<close> for the CAPTCHA marker gives at a time (in
  seconds) after the call: an exception, or the number of elements found. The result
  is the returned flag and the seconds slept.
\<close>

definition handle_captcha :: "(nat \<Rightarrow> exn + nat) \<Rightarrow> bool \<times> nat" where
  "handle_captcha page =
     (case page 0 of
        Inl e \<Rightarrow> (False, 0)
      | Inr captcha_elements \<Rightarrow> if captcha_elements \<noteq> 0 then (True, 30) else (False, 0))"

definition persistent_marker :: "nat \<Rightarrow> exn + nat" where
  "persistent_marker = (\<lambda>t. Inr 1)"

definition transient_marker :: "nat \<Rightarrow> exn + nat" where
  "transient_marker = (\<lambda>t. if t < 30 then Inr 1 else Inr 0)"

text \<open>
  The names bound in the body of class \<open>AdvancedScraperService\<close> and the attributes
  set by its \<open>__init__\<close>.
\<close>

definition AdvancedScraperService_names :: "string list" where
  "AdvancedScraperService_names =
     [''__init__'', ''load_proxy_list'', ''load_user_agents'', ''create_stealth_driver'',
      ''handle_captcha'', ''scrape_google_maps_advanced'', ''scroll_and_collect'',
      ''extract_visible_results'', ''extract_business_data'', ''extract_ratings'',
      ''extract_contact_info'', ''enrich_business_data'', ''discover_social_media'',
      ''use_proxies'', ''headless'', ''proxy_list'', ''user_agents'', ''scraping_stats'']"

definition scraper_getattr :: "string \<Rightarrow> exn + unit" where
  "scraper_getattr name =
     (if name \<in> set AdvancedScraperService_names then Inr () else Inl (AttributeError name))"

datatype harness_call =
    CreateStealthDriver
  | SetPageLoadTimeout nat
  | DriverGet
  | HandlePopups
  | HandleCaptcha
  | CollectAndEnrich
  | Quit

text \<open>
  \<open>scrape_google_maps_advanced\<close> with the calls it makes, in order. Its arguments
  are the outcomes of those calls: of creating the driver, of setting the page load
  timeout, of building the URL and loading it, of lines 103 to 116 after the lookup of
  \<open>handle_popups\<close>, and of \<open>driver.quit()\<close>. Both \<open>except\<close> branches return the
  empty list. The \<open>finally\<close> branch quits the driver when one was created; an
  exception raised by \<open>quit\<close> leaves the method in place of the returned list.
\<close>

definition scrape_body ::
  "exn + unit \<Rightarrow> exn + unit \<Rightarrow> exn + 'a list \<Rightarrow> 'a list \<times> harness_call list" where
  "scrape_body set_page_load_timeout navigate collect =
     (case set_page_load_timeout of
        Inl e \<Rightarrow> ([], [SetPageLoadTimeout 60])
      | Inr u \<Rightarrow>
          (case navigate of
             Inl e \<Rightarrow> ([], [SetPageLoadTimeout 60, DriverGet])
           | Inr u \<Rightarrow>
               (case scraper_getattr ''handle_popups'' of
                  Inl e \<Rightarrow> ([], [SetPageLoadTimeout 60, DriverGet])
                | Inr u \<Rightarrow>
                    (case collect of
                       Inl e \<Rightarrow> ([], [SetPageLoadTimeout 60, DriverGet, HandlePopups,
                                       CollectAndEnrich])
                     | Inr enriched_results \<Rightarrow>
                         (enriched_results,
                          [SetPageLoadTimeout 60, DriverGet, HandlePopups, CollectAndEnrich])))))"

definition scrape_google_maps_advanced ::
  "exn + unit \<Rightarrow> exn + unit \<Rightarrow> exn + unit \<Rightarrow> exn + 'a list \<Rightarrow> exn + unit
     \<Rightarrow> (exn + 'a list) \<times> harness_call list" where
  "scrape_google_maps_advanced create_stealth_driver set_page_load_timeout navigate collect quit =
     (case create_stealth_driver of
        Inl e \<Rightarrow> (Inr [], [CreateStealthDriver])
      | Inr driver \<Rightarrow>
          (case scrape_body set_page_load_timeout navigate collect of
             (results, calls) \<Rightarrow>
               (case quit of
                  Inl e \<Rightarrow> (Inl e, CreateStealthDriver # calls @ [Quit])
                | Inr u \<Rightarrow> (Inr results, CreateStealthDriver # calls @ [Quit]))))"

section \<open>Keyword submission (app/routes/keywords.py, create_keyword)\<close>

text \<open>
  A parsed JSON value; \<open>JNull\<close> is Python's \<open>None\<close>, and an object is the list of
  its fields, each name once.
\<close>

datatype json =
    JNull
  | JBool bool
  | JNum rat
  | JStr string
  | JArr "json list"
  | JObj "(string \<times> json) list"

text \<open>
  The truth value of \<open>data\<close>, the test \<open>'keyword' in data\<close> and the subscript
  \<open>data['keyword']\<close>, for each kind of value. On a string \<open>in\<close> tests for a
  substring and on a list for an element; on a number or a truth value it raises, as
  the subscript does on everything but an object.
\<close>

definition py_truthy :: "json \<Rightarrow> bool" where
  "py_truthy data =
     (case data of
        JNull \<Rightarrow> False
      | JBool b \<Rightarrow> b
      | JNum n \<Rightarrow> n \<noteq> 0
      | JStr s \<Rightarrow> s \<noteq> []
      | JArr xs \<Rightarrow> xs \<noteq> []
      | JObj kvs \<Rightarrow> kvs \<noteq> [])"

definition is_substring :: "string \<Rightarrow> string \<Rightarrow> bool" where
  "is_substring p s = list_ex (\<lambda>i. take (length p) (drop i s) = p) [0..<Suc (length s)]"

definition contains_keyword :: "json \<Rightarrow> exn + bool" where
  "contains_keyword data =
     (case data of
        JObj kvs \<Rightarrow> Inr (''keyword'' \<in> set (map fst kvs))
      | JArr xs \<Rightarrow> Inr (JStr ''keyword'' \<in> set xs)
      | JStr s \<Rightarrow> Inr (is_substring ''keyword'' s)
      | JNum n \<Rightarrow> Inl (TypeError ''argument of type int is not iterable'')
      | JBool b \<Rightarrow> Inl (TypeError ''argument of type bool is not iterable'')
      | JNull \<Rightarrow> Inl (TypeError ''argument of type NoneType is not iterable''))"

definition subscript_keyword :: "json \<Rightarrow> exn + json" where
  "subscript_keyword data =
     (case data of
        JObj kvs \<Rightarrow>
          (case map_of kvs ''keyword'' of
             None \<Rightarrow> Inl (OtherException ''KeyError'')
           | Some v \<Rightarrow> Inr v)
      | JArr xs \<Rightarrow> Inl (TypeError ''list indices must be integers or slices, not str'')
      | JStr s \<Rightarrow> Inl (TypeError ''string indices must be integers'')
      | JNum n \<Rightarrow> Inl (TypeError ''object is not subscriptable'')
      | JBool b \<Rightarrow> Inl (TypeError ''object is not subscriptable'')
      | JNull \<Rightarrow> Inl (TypeError ''object is not subscriptable''))"

text \<open>
  A stored keyword row has its identifier, its keyword and its status; the column
  default of the status is \<open>pending\<close>.
\<close>

record keyword_record =
  kr_id :: nat
  kr_keyword :: json
  kr_status :: string

datatype response = ErrorResponse string | KeywordCreated nat json string

text \<open>
  \<open>request\<close> is the outcome of \<open>request.get_json()\<close>. \<open>store v db\<close> is the outcome
  of creating the \<open>Keyword\<close> object for the value \<open>v\<close>, adding it to the session and
  committing: the exception raised, or the identifier the database assigned and the
  keyword it stored. An exception is not caught by the route and leaves the table
  as it was.
\<close>

definition create_keyword ::
  "(json \<Rightarrow> keyword_record list \<Rightarrow> exn + nat \<times> json) \<Rightarrow> exn + json \<Rightarrow> keyword_record list
     \<Rightarrow> (exn + nat \<times> response) \<times> keyword_record list" where
  "create_keyword store request db =
     (case request of
        Inl e \<Rightarrow> (Inl e, db)
      | Inr data \<Rightarrow>
          if \<not> py_truthy data then (Inr (400, ErrorResponse ''Keyword is required''), db)
          else (case contains_keyword data of
                  Inl e \<Rightarrow> (Inl e, db)
                | Inr present \<Rightarrow>
                    if \<not> present then (Inr (400, ErrorResponse ''Keyword is required''), db)
                    else (case subscript_keyword data of
                            Inl e \<Rightarrow> (Inl e, db)
                          | Inr v \<Rightarrow>
                              (case store v db of
                                 Inl e \<Rightarrow> (Inl e, db)
                               | Inr (new_id, stored) \<Rightarrow>
                                   (let keyword = \<lparr>kr_id = new_id, kr_keyword = stored,
                                                    kr_status = ''pending''\<rparr>
                                    in (Inr (201, KeywordCreated (kr_id keyword)
                                                    (kr_keyword keyword) (kr_status keyword)),
                                        db @ [keyword]))))))"

text \<open>
  For the concrete runs below: a database that stores every row as it is given, and one
  whose every use raises.
\<close>

definition accepting_store :: "json \<Rightarrow> keyword_record list \<Rightarrow> exn + nat \<times> json" where
  "accepting_store = (\<lambda>v db. Inr (length db + 1, v))"

definition raising_store :: "json \<Rightarrow> keyword_record list \<Rightarrow> exn + nat \<times> json" where
  "raising_store = (\<lambda>v db. Inl (OtherException ''InvalidRequestError''))"

section \<open>Theorems\<close>

subsection \<open>Termination of the loops\<close>

lemma scroll_step_measure:
  assumes "scroll_continues m st"
  shows "nat (m - int (length (collected (scroll_step cur h st)))) * 5
           + (5 - no_new_results_count (scroll_step cur h st))
         < nat (m - int (length (collected st))) * 5 + (5 - no_new_results_count st)"
proof (cases "filter (\<lambda>r. r \<notin> set (collected st)) cur = []")
  case True
  with assms show ?thesis
    by (auto simp: scroll_step_def scroll_continues_def max_no_new_results_def Let_def)
next
  case False
  then have "length (filter (\<lambda>r. r \<notin> set (collected st)) cur) \<ge> 1"
    by (cases "filter (\<lambda>r. r \<notin> set (collected st)) cur") auto
  with False assms show ?thesis
    by (auto simp: scroll_step_def scroll_continues_def max_no_new_results_def Let_def)
qed

termination scroll_loop
  by (relation "measure (\<lambda>(feed, m, st).
        nat (m - int (length (collected st))) * 5 + (5 - no_new_results_count st))")
     (auto simp: scroll_step_measure)


declare scroll_loop.simps [simp del]

subsection \<open>Scroll loop\<close>

lemma scroll_step_stalled:
  assumes "set cur \<subseteq> set (collected st)"
  shows "scroll_step cur (last_height st) st =
           st\<lparr>no_new_results_count := no_new_results_count st + 2,
              scroll_steps := scroll_steps st + 1\<rparr>"
proof -
  from assms have "filter (\<lambda>r. r \<notin> set (collected st)) cur = []"
    by (auto simp: filter_empty_conv)
  then show ?thesis
    by (simp add: scroll_step_def Let_def)
qed

lemma scroll_loop_stops:
  "scroll_loop feed m st = Inr st' \<Longrightarrow> \<not> scroll_continues m st'"
proof (induction feed m st rule: scroll_loop.induct)
  case (1 feed m st)
  show ?case
  proof (cases "scroll_continues m st")
    case False
    with "1.prems" show ?thesis
      by (simp add: scroll_loop.simps [of feed m st])
  next
    case True
    with "1.prems" obtain cur h where
      f: "feed (scroll_steps st) = Inr (cur, h)" and
      r: "scroll_loop feed m (scroll_step cur h st) = Inr st'"
      by (auto simp: scroll_loop.simps [of feed m st] split: sum.splits)
    from "1.IH" [OF True f refl r] show ?thesis .
  qed
qed

lemma scroll_loop_stalled:
  assumes "\<forall>i\<ge>scroll_steps st.
             \<exists>cur. feed i = Inr (cur, last_height st) \<and> set cur \<subseteq> set (collected st)"
  shows "\<exists>st'. scroll_loop feed m st = Inr st'
           \<and> collected st' = collected st
           \<and> scroll_steps st' \<le> scroll_steps st + 2"
proof (cases "scroll_continues m st")
  case False
  then show ?thesis
    by (simp add: scroll_loop.simps [of feed m st])
next
  case True
  from assms obtain cur where
    cur: "feed (scroll_steps st) = Inr (cur, last_height st)" "set cur \<subseteq> set (collected st)"
    by blast
  define st1 where "st1 = st\<lparr>no_new_results_count := no_new_results_count st + 2,
                              scroll_steps := scroll_steps st + 1\<rparr>"
  have "scroll_step cur (last_height st) st = st1"
    using scroll_step_stalled [OF cur(2)] by (simp add: st1_def)
  then have step1: "scroll_loop feed m st = scroll_loop feed m st1"
    using True cur(1) by (simp add: scroll_loop.simps [of feed m st])
  show ?thesis
  proof (cases "scroll_continues m st1")
    case False
    then have "scroll_loop feed m st1 = Inr st1"
      by (simp add: scroll_loop.simps [of feed m st1])
    then show ?thesis
      unfolding step1 by (simp add: st1_def)
  next
    case cont: True
    have "scroll_steps st \<le> scroll_steps st1"
      by (simp add: st1_def)
    with assms obtain cur1 where
      "feed (scroll_steps st1) = Inr (cur1, last_height st)" "set cur1 \<subseteq> set (collected st)"
      by blast
    then have cur1: "feed (scroll_steps st1) = Inr (cur1, last_height st1)"
                    "set cur1 \<subseteq> set (collected st1)"
      by (simp_all add: st1_def)
    define st2 where "st2 = st1\<lparr>no_new_results_count := no_new_results_count st1 + 2,
                                 scroll_steps := scroll_steps st1 + 1\<rparr>"
    have "scroll_step cur1 (last_height st1) st1 = st2"
      using scroll_step_stalled [OF cur1(2)] by (simp add: st2_def)
    then have step2: "scroll_loop feed m st1 = scroll_loop feed m st2"
      using cont cur1(1) by (simp add: scroll_loop.simps [of feed m st1])
    have stop: "\<not> scroll_continues m st2"
      by (simp add: st2_def st1_def scroll_continues_def max_no_new_results_def)
    then have "scroll_loop feed m st2 = Inr st2"
      by (simp add: scroll_loop.simps [of feed m st2])
    then show ?thesis
      unfolding step1 step2 by (simp add: st2_def st1_def)
  qed
qed

text \<open>
  C4 (as stated, refuted). On a feed that shows the same two items at the same height
  in every iteration, the loop has stopped after three iterations: the first one
  collects the two items, and only two iterations without a new item and without a
  change of height follow. The target of 50 is not reached, and three consecutive
  stalled iterations have not happened.
\<close>

theorem scroll_loop_stalled_feed_two_steps:
  "scroll_loop stalled_feed 50 scroll_init =
     Inr \<lparr>collected = [''Cafe A'', ''Cafe B''], last_height = 800,
          no_new_results_count = 4, scroll_steps = 3\<rparr>"
  by (simp add: scroll_loop.simps stalled_feed_def scroll_init_def
        scroll_continues_def max_no_new_results_def scroll_step_def)

lemma scroll_step_fields:
  "scroll_step cur h st =
     \<lparr>collected = collected st @ filter (\<lambda>r. r \<notin> set (collected st)) cur,
      last_height = h,
      no_new_results_count =
        (if set cur \<subseteq> set (collected st) then no_new_results_count st + 1 else 0)
        + (if h = last_height st then 1 else 0),
      scroll_steps = scroll_steps st + 1\<rparr>"
proof -
  have "(filter (\<lambda>r. r \<notin> set (collected st)) cur = []) = (set cur \<subseteq> set (collected st))"
    by (auto simp: filter_empty_conv)
  then show ?thesis
    by (cases st) (simp add: scroll_step_def Let_def)
qed

text \<open>
  C4 (amended). The loop returns at once when the result count has reached the target
  or the counter has reached 3, and runs another iteration otherwise. An iteration
  appends the new items, takes the new height, adds 1 to the counter when there is no
  new item and resets it to 0 when there is one, then adds 1 more when the height
  equals the last one. So the loop returns only in a state where the target or the
  counter value 3 is reached; and when, from the current iteration on, the feed shows
  no new item and its height equals the last one read, the loop returns after at most
  two further iterations, having collected nothing more.
\<close>

theorem scroll_loop_stop_rule:
  "scroll_loop feed m st =
     (if int (length (collected st)) < m \<and> no_new_results_count st < 3
      then (case feed (scroll_steps st) of
              Inl e \<Rightarrow> Inl e
            | Inr (cur, h) \<Rightarrow>
                scroll_loop feed m
                  \<lparr>collected = collected st @ filter (\<lambda>r. r \<notin> set (collected st)) cur,
                   last_height = h,
                   no_new_results_count =
                     (if set cur \<subseteq> set (collected st) then no_new_results_count st + 1 else 0)
                     + (if h = last_height st then 1 else 0),
                   scroll_steps = scroll_steps st + 1\<rparr>)
      else Inr st)
   \<and> (\<forall>st'. scroll_loop feed m st = Inr st' \<longrightarrow>
         m \<le> int (length (collected st')) \<or> 3 \<le> no_new_results_count st')
   \<and> ((\<forall>i\<ge>scroll_steps st.
          \<exists>cur'. feed i = Inr (cur', last_height st) \<and> set cur' \<subseteq> set (collected st)) \<longrightarrow>
       (\<exists>st'. scroll_loop feed m st = Inr st'
          \<and> collected st' = collected st
          \<and> scroll_steps st' \<le> scroll_steps st + 2))"
proof (intro conjI allI impI)
  show "scroll_loop feed m st =
     (if int (length (collected st)) < m \<and> no_new_results_count st < 3
      then (case feed (scroll_steps st) of
              Inl e \<Rightarrow> Inl e
            | Inr (cur, h) \<Rightarrow>
                scroll_loop feed m
                  \<lparr>collected = collected st @ filter (\<lambda>r. r \<notin> set (collected st)) cur,
                   last_height = h,
                   no_new_results_count =
                     (if set cur \<subseteq> set (collected st) then no_new_results_count st + 1 else 0)
                     + (if h = last_height st then 1 else 0),
                   scroll_steps = scroll_steps st + 1\<rparr>)
      else Inr st)"
    by (subst scroll_loop.simps)
       (simp add: scroll_continues_def max_no_new_results_def scroll_step_fields
          split: sum.splits prod.splits)
next
  fix st'
  assume "scroll_loop feed m st = Inr st'"
  from scroll_loop_stops [OF this]
  show "m \<le> int (length (collected st')) \<or> 3 \<le> no_new_results_count st'"
    by (auto simp: scroll_continues_def max_no_new_results_def)
next
  assume "\<forall>i\<ge>scroll_steps st.
            \<exists>cur'. feed i = Inr (cur', last_height st) \<and> set cur' \<subseteq> set (collected st)"
  then show "\<exists>st'. scroll_loop feed m st = Inr st'
          \<and> collected st' = collected st
          \<and> scroll_steps st' \<le> scroll_steps st + 2"
    by (rule scroll_loop_stalled)
qed

theorem scroll_loop_stop_rule_witness:
  "\<exists>st'. scroll_loop stalled_feed 50 after_first_step = Inr st'
     \<and> collected st' = collected after_first_step
     \<and> scroll_steps st' \<le> scroll_steps after_first_step + 2
     \<and> (50 \<le> int (length (collected st')) \<or> 3 \<le> no_new_results_count st')"
proof -
  have h: "\<forall>i\<ge>scroll_steps after_first_step.
          \<exists>cur'. stalled_feed i = Inr (cur', last_height after_first_step)
                \<and> set cur' \<subseteq> set (collected after_first_step)"
    by (simp add: stalled_feed_def after_first_step_def)
  from scroll_loop_stop_rule [where feed = stalled_feed and m = 50 and st = after_first_step] h
  show ?thesis by blast
qed

subsection \<open>Retries of the scraping task\<close>

lemma set_status_fields [simp]:
  "attempts (set_status keyword_id s w) = attempts w"
  "notifications (set_status keyword_id s w) = notifications w"
  "retry_delays (set_status keyword_id s w) = retry_delays w"
  by (simp_all add: set_status_def split: option.splits)









subsection \<open>Optimal scraping time\<close>

lemma digit_char_eq: "d < 10 \<Longrightarrow> digit_char d = ''0123456789'' ! d"
  by (simp add: digit_char_def)

lemma fmt_02d_two_digits:
  assumes "0 \<le> i" "i < 100"
  shows "fmt_02d i = [''0123456789'' ! (nat i div 10), ''0123456789'' ! (nat i mod 10)]"
proof (cases "i < 10")
  case True
  with assms have "nat i < 10" by simp
  then have "nat i div 10 = 0" "nat i mod 10 = nat i" by simp_all
  with True assms \<open>nat i < 10\<close> show ?thesis
    by (simp add: fmt_02d_def digit_char_def)
next
  case False
  with assms have n: "10 \<le> nat i" "nat i < 100" by simp_all
  then have "nat i div 10 < 10" by simp
  then have "digits (nat i) = [digit_char (nat i div 10), digit_char (nat i mod 10)]"
    using n by (subst digits.simps) simp
  with False assms show ?thesis
    by (simp add: fmt_02d_def digit_char_def del: digits.simps)
qed

lemma split_acc_length:
  "(is_space x \<longleftrightarrow> cur = []) \<Longrightarrow>
   length (split_acc cur s) =
     length (filter (\<lambda>(p, c). is_space p \<and> \<not> is_space c) (zip (x # s) s))
     + (if cur = [] then 0 else 1)"
proof (induction s arbitrary: cur x)
  case Nil
  then show ?case by simp
next
  case (Cons c cs)
  show ?case
  proof (cases "is_space c")
    case True
    have "length (split_acc [] cs) =
            length (filter (\<lambda>(p, c). is_space p \<and> \<not> is_space c) (zip (c # cs) cs)) + 0"
      using Cons.IH [of c "[]"] True by simp
    with True show ?thesis by simp
  next
    case False
    have "length (split_acc (cur @ [c]) cs) =
            length (filter (\<lambda>(p, c). is_space p \<and> \<not> is_space c) (zip (c # cs) cs)) + 1"
      using Cons.IH [of c "cur @ [c]"] False by simp
    with False Cons.prems show ?thesis by simp
  qed
qed

lemma py_split_length:
  "length (py_split s) =
     length (filter (\<lambda>(p, c). is_space p \<and> \<not> is_space c) (zip (CHR '' '' # s) s))"
  using split_acc_length [of "CHR '' ''" "[]" s]
  by (simp add: py_split_def is_space_def)

lemma success_rate_below_half:
  "rs \<noteq> [] \<Longrightarrow>
   (calculate_success_rate rs < 1 / 2) =
   (2 * length (filter (\<lambda>r. sr_title r \<notin> {None, Some []} \<and> sr_website r \<notin> {None, Some []}) rs)
      < length rs)"
proof -
  assume ne: "rs \<noteq> []"
  have same: "filter (\<lambda>r. truthy (sr_title r) \<and> truthy (sr_website r)) rs =
        filter (\<lambda>r. sr_title r \<notin> {None, Some []} \<and> sr_website r \<notin> {None, Some []}) rs"
    by (rule filter_cong) (auto simp: truthy_def split: option.splits)
  define a where "a = length (filter (\<lambda>r. sr_title r \<notin> {None, Some []} \<and> sr_website r \<notin> {None, Some []}) rs)"
  define n where "n = length rs"
  from ne have pos: "0 < n" by (simp add: n_def)
  have "((of_nat a :: rat) / of_nat n < 1 / 2) = (2 * (of_nat a :: rat) < of_nat n)"
    using pos by (simp add: field_simps)
  also have "\<dots> = ((of_nat (2 * a) :: rat) < of_nat n)"
    by simp
  also have "\<dots> = (2 * a < n)"
    by (rule of_nat_less_iff)
  finally show ?thesis
    using ne by (simp add: calculate_success_rate_def same a_def n_def)
qed

lemma adjustment_Inr:
  "calculate_keyword_adjustment keyword_text (Inr rs) =
     Inr ((if rs \<noteq> [] \<and> calculate_success_rate rs < 1 / 2 then 2 else 0)
          - (if 3 < length (py_split keyword_text) then 1 else 0))"
  by (simp add: calculate_keyword_adjustment_def Let_def)

text \<open>
  C5 (as stated, refuted). In two interpreter processes the same keyword, the same
  priority and the same (empty) history give two different times: the minute is the
  process's hash of the keyword text mod 60, not a function of the text alone.
\<close>

theorem calculate_optimal_time_differs_between_processes:
  "calculate_optimal_time hash_in_process_1 ''coffee shops in Denver'' (Inr []) ''high''
     = Inr ''01:54''
   \<and> calculate_optimal_time hash_in_process_2 ''coffee shops in Denver'' (Inr []) ''high''
     = Inr ''01:35''"
  by (simp add: calculate_optimal_time_def calculate_keyword_adjustment_def
        get_base_scraping_time_def py_split_def is_space_def fmt_02d_def digit_char_def
        hash_in_process_1_def hash_in_process_2_def Let_def)

text \<open>
  C5 (amended). When the query for the keyword's history raises, the computation
  raises. Otherwise (for a history of fewer than \<open>2^53\<close> rows) the computed time is \<open>HH:MM\<close>, two decimal digits each, where the
  hour is (base + adjustment) mod 24 with base 2 for high and 6 for low priority and 4
  for any other; the adjustment adds 2 when the keyword has at least one prior result
  and fewer than half of the prior results have both a title and a website, and
  subtracts 1 when the keyword text has more than three words (runs of characters that
  are not white space); the minute is the hash of the keyword text in the running
  interpreter process, mod 60. So two calls in one process for the same keyword and
  priority with the same history return the same time.
\<close>

theorem calculate_optimal_time_hour_minute:
  "calculate_optimal_time py_hash keyword_text (Inl e) priority = Inl e
   \<and> (length previous_results < 2 ^ 53 \<longrightarrow>
      (\<exists>h m. calculate_optimal_time py_hash keyword_text (Inr previous_results) priority
              = Inr [''0123456789'' ! (h div 10), ''0123456789'' ! (h mod 10), CHR '':'',
                     ''0123456789'' ! (m div 10), ''0123456789'' ! (m mod 10)]
         \<and> int h =
             ((if priority = ''high'' then 2 else if priority = ''low'' then 6 else 4)
              + (if previous_results \<noteq> []
                    \<and> 2 * length (filter (\<lambda>r. sr_title r \<notin> {None, Some []}
                                              \<and> sr_website r \<notin> {None, Some []}) previous_results)
                      < length previous_results
                 then 2 else 0)
              - (if 3 < length (filter
                          (\<lambda>(p, c). of_char p \<in> {9, 10, 11, 12, 13, 28, 29, 30, 31, 32, 133, 160 :: nat}
                                  \<and> of_char c \<notin> {9, 10, 11, 12, 13, 28, 29, 30, 31, 32, 133, 160 :: nat})
                          (zip (CHR '' '' # keyword_text) keyword_text))
                 then 1 else 0)) mod 24
         \<and> int m = py_hash keyword_text mod 60))"
  (is "?A \<and> (?L \<longrightarrow> ?E)")
proof (intro conjI impI)
  show ?A
    by (simp add: calculate_optimal_time_def calculate_keyword_adjustment_def)
next
  define adj where "adj =
      (if previous_results \<noteq> []
          \<and> 2 * length (filter (\<lambda>r. sr_title r \<notin> {None, Some []}
                                    \<and> sr_website r \<notin> {None, Some []}) previous_results)
            < length previous_results
       then 2 else 0 :: int)
      - (if 3 < length (filter
                (\<lambda>(p, c). of_char p \<in> {9, 10, 11, 12, 13, 28, 29, 30, 31, 32, 133, 160 :: nat}
                        \<and> of_char c \<notin> {9, 10, 11, 12, 13, 28, 29, 30, 31, 32, 133, 160 :: nat})
                (zip (CHR '' '' # keyword_text) keyword_text))
         then 1 else 0)"
  define base where "base = (if priority = ''high'' then 2 else if priority = ''low'' then 6 else 4 :: int)"
  define hour where "hour = (base + adj) mod 24"
  define minute where "minute = py_hash keyword_text mod 60"
  have words: "length (py_split keyword_text) =
      length (filter
                (\<lambda>(p, c). of_char p \<in> {9, 10, 11, 12, 13, 28, 29, 30, 31, 32, 133, 160 :: nat}
                        \<and> of_char c \<notin> {9, 10, 11, 12, 13, 28, 29, 30, 31, 32, 133, 160 :: nat})
                (zip (CHR '' '' # keyword_text) keyword_text))"
    unfolding py_split_length by (simp add: is_space_def)
  have adjustment: "calculate_keyword_adjustment keyword_text (Inr previous_results) = Inr adj"
  proof (cases "previous_results = []")
    case True
    then show ?thesis
      unfolding adjustment_Inr words adj_def by simp
  next
    case False
    note c = success_rate_below_half [OF False]
    show ?thesis
      unfolding adjustment_Inr c words adj_def by simp
  qed
  have base: "get_base_scraping_time priority = base"
    by (auto simp: get_base_scraping_time_def base_def)
  have hr: "0 \<le> hour" "hour < 100" and mr: "0 \<le> minute" "minute < 100"
    by (simp_all add: hour_def minute_def)
  have result: "calculate_optimal_time py_hash keyword_text (Inr previous_results) priority =
          Inr (fmt_02d hour @ '':'' @ fmt_02d minute)"
    by (simp add: calculate_optimal_time_def adjustment base Let_def hour_def minute_def)
  have r1: "calculate_optimal_time py_hash keyword_text (Inr previous_results) priority
              = Inr [''0123456789'' ! (nat hour div 10), ''0123456789'' ! (nat hour mod 10), CHR '':'',
                     ''0123456789'' ! (nat minute div 10), ''0123456789'' ! (nat minute mod 10)]"
      unfolding result by (simp add: fmt_02d_two_digits [OF hr] fmt_02d_two_digits [OF mr])
  have r2: "int (nat hour) =
             ((if priority = ''high'' then 2 else if priority = ''low'' then 6 else 4)
              + (if previous_results \<noteq> []
                    \<and> 2 * length (filter (\<lambda>r. sr_title r \<notin> {None, Some []}
                                              \<and> sr_website r \<notin> {None, Some []}) previous_results)
                      < length previous_results
                 then 2 else 0)
              - (if 3 < length (filter
                          (\<lambda>(p, c). of_char p \<in> {9, 10, 11, 12, 13, 28, 29, 30, 31, 32, 133, 160 :: nat}
                                  \<and> of_char c \<notin> {9, 10, 11, 12, 13, 28, 29, 30, 31, 32, 133, 160 :: nat})
                          (zip (CHR '' '' # keyword_text) keyword_text))
                 then 1 else 0)) mod 24"
      using hr(1) by (simp add: hour_def base_def adj_def add_diff_eq)
  have r3: "int (nat minute) = py_hash keyword_text mod 60"
      using mr(1) by (simp add: minute_def)
  from r1 r2 r3 show ?E
    by blast
qed

theorem calculate_optimal_time_hour_minute_witness:
  "calculate_optimal_time hash_in_process_1 ''coffee shops in Denver'' (Inr []) ''high''
     = Inr ''01:54''
   \<and> calculate_optimal_time hash_in_process_1 ''coffee shops in Denver''
       (Inl (OtherException ''InvalidRequestError'')) ''high''
     = Inl (OtherException ''InvalidRequestError'')"
proof -
  from calculate_optimal_time_hour_minute
    [of hash_in_process_1 "''coffee shops in Denver''" "OtherException ''InvalidRequestError''"
        "''high''" "[]"]
  obtain h m where
    r: "calculate_optimal_time hash_in_process_1 ''coffee shops in Denver'' (Inr []) ''high''
          = Inr [''0123456789'' ! (h div 10), ''0123456789'' ! (h mod 10), CHR '':'',
                 ''0123456789'' ! (m div 10), ''0123456789'' ! (m mod 10)]"
    and h: "int h = 1" and m: "int m = 54"
    and e: "calculate_optimal_time hash_in_process_1 ''coffee shops in Denver''
              (Inl (OtherException ''InvalidRequestError'')) ''high''
            = Inl (OtherException ''InvalidRequestError'')"
    by (auto simp: hash_in_process_1_def)
  from h m have "h = 1" "m = 54" by simp_all
  with r e show ?thesis by simp
qed

subsection \<open>Cache\<close>

text \<open>
  C6 (as stated, refuted). The key is set at time 0 with a TTL of 10 seconds. The
  server received the command a moment after the local expiry time was computed, so at
  time 10 it still holds the key. The \<open>get\<close> at time 10 finds the local entry expired,
  gets the value from Redis and returns it, and a \<open>get\<close> at time 300 still returns
  it from the local copy, although Redis has nothing any more.
\<close>

theorem cache_get_after_ttl_returns_value:
  "fst (CacheManager_get exact_add 10 10 (Inr (Some ''v'')) ''k''
          (fst (CacheManager_set exact_add 0 ''k'' ''v'' 10 redis_cache))) = Some ''v''
   \<and> fst (CacheManager_get exact_add 300 300 (Inr None) ''k''
          (snd (CacheManager_get exact_add 10 10 (Inr (Some ''v'')) ''k''
                  (fst (CacheManager_set exact_add 0 ''k'' ''v'' 10 redis_cache))))) = Some ''v''"
  by (simp add: CacheManager_get_def CacheManager_set_def redis_cache_def
        get_from_redis_def live_def exact_add_def)

text \<open>
  C6 (amended). After \<open>set(k, v, ttl)\<close> with a positive TTL at time \<open>t\<close>, the local
  entry expires at \<open>t + ttl\<close>, and \<open>set\<close> sends \<open>SETEX k ttl v\<close> when there is a
  Redis client. A \<open>get(k)\<close> before the expiry time returns \<open>v\<close> from the local cache
  and changes nothing. A \<open>get(k)\<close> at or after the expiry time no longer serves the
  local entry: it returns nothing when there is no Redis client, when the call to Redis
  raises, or when Redis has no value or an empty one for the key, and then no local
  entry is left; otherwise it returns the value Redis gives and keeps it locally for
  300 seconds.
\<close>

theorem cache_set_get_roundtrip:
  assumes "0 < ttl" and "t1 < add_seconds t ttl" and "add_seconds t ttl \<le> t2"
  shows "CacheManager_get add_seconds t1 l1 r1 k (fst (CacheManager_set add_seconds t k v ttl cm))
           = (Some v, fst (CacheManager_set add_seconds t k v ttl cm))
       \<and> fst (CacheManager_get add_seconds t2 l2 r2 k
                 (fst (CacheManager_set add_seconds t k v ttl cm)))
           = (if has_redis cm
              then (case r2 of
                      Inl e \<Rightarrow> None
                    | Inr None \<Rightarrow> None
                    | Inr (Some x) \<Rightarrow> if x = [] then None else Some x)
              else None)
       \<and> local_cache (snd (CacheManager_get add_seconds t2 l2 r2 k
                              (fst (CacheManager_set add_seconds t k v ttl cm)))) k
           = (if has_redis cm
              then (case r2 of
                      Inl e \<Rightarrow> None
                    | Inr None \<Rightarrow> None
                    | Inr (Some x) \<Rightarrow> if x = [] then None else Some (x, Some (add_seconds l2 300)))
              else None)
       \<and> local_cache (fst (CacheManager_set add_seconds t k v ttl cm)) k
           = Some (v, Some (add_seconds t ttl))
       \<and> snd (CacheManager_set add_seconds t k v ttl cm)
           = (if has_redis cm then Some (SETEX k ttl v) else None)"
  using assms
  by (auto simp: CacheManager_get_def CacheManager_set_def get_from_redis_def
        live_def Let_def split: option.splits sum.splits)

theorem cache_set_get_roundtrip_witness:
  "fst (CacheManager_get exact_add 1 1 (Inr (Some ''v'')) ''k''
          (fst (CacheManager_set exact_add 0 ''k'' ''v'' 10 redis_cache))) = Some ''v''
   \<and> fst (CacheManager_get exact_add 11 11 (Inr None) ''k''
          (fst (CacheManager_set exact_add 0 ''k'' ''v'' 10 redis_cache))) = None
   \<and> fst (CacheManager_get exact_add 11 11 (Inr None) ''k''
          (fst (CacheManager_set exact_add 0 ''k'' ''v'' 10 local_only_cache))) = None
   \<and> snd (CacheManager_set exact_add 0 ''k'' ''v'' 10 redis_cache) = Some (SETEX ''k'' 10 ''v'')"
proof -
  have h: "(0::int) < 10" "(1::rat) < exact_add 0 10" "exact_add 0 10 \<le> (11::rat)"
    by (simp_all add: exact_add_def)
  note inst = cache_set_get_roundtrip [where add_seconds = exact_add and ttl = 10 and t = 0
      and ?t1.0 = 1 and ?t2.0 = 11 and ?l1.0 = 1 and ?r1.0 = "Inr (Some ''v'')"
      and ?l2.0 = 11 and ?r2.0 = "Inr None" and k = "''k''" and v = "''v''"]
  from inst [where cm = redis_cache, OF h] inst [where cm = local_only_cache, OF h]
  show ?thesis
    by (simp add: redis_cache_def local_only_cache_def)
qed

subsection \<open>Website analysis\<close>



lemma calculate_overall_score_empty: "calculate_overall_score Map.empty = Inr 0"
  by (simp add: calculate_overall_score_def weights_def)

lemma calculate_overall_score_le_100: "calculate_overall_score d = Inr s \<Longrightarrow> s \<le> 100"
  by (auto simp: calculate_overall_score_def split: sum.splits prod.splits if_splits)

text \<open>
  C1 (evaluation at the failing input). With the single sub-score \<open>seo_score = 50\<close>
  the weighted mean of the sub-scores present is 50, but the function returns 100: it
  multiplies the renormalised mean by 100 before capping it at 100.
\<close>

theorem calculate_overall_score_seo_50:
  "calculate_overall_score [''seo_score'' \<mapsto> Num 50] = Inr 100
   \<and> spec_weighted_mean [''seo_score'' \<mapsto> 50] = 50"
  by (simp add: calculate_overall_score_def weights_def py_int_def spec_weighted_mean_def)

lemma assign_grade_undefined: "analyzer_getattr ''assign_grade'' = Inl (AttributeError ''assign_grade'')"
  by (simp add: analyzer_getattr_def IntelligentWebsiteAnalyzer_names_def)

lemma get_fallback_analysis_undefined:
  "analyzer_getattr ''get_fallback_analysis'' = Inl (AttributeError ''get_fallback_analysis'')"
  by (simp add: analyzer_getattr_def IntelligentWebsiteAnalyzer_names_def)

lemma analysis_try_block_raises:
  "\<exists>e. analysis_try_block assign_grade now url passes an = Inl e"
  by (simp add: analysis_try_block_def assign_grade_undefined Let_def split: sum.splits)

text \<open>
  C10. For a URL that has no entry in the analyzer's cache, or whose entry is at least
  one hour old, \<open>comprehensive_analysis\<close> raises and leaves the cache as it was,
  whatever the six passes do: the \<open>try\<close> block always raises (when the passes and the
  composite computation succeed, at the lookup of \<open>assign_grade\<close>), and the handler
  raises \<open>AttributeError\<close> at the lookup of \<open>get_fallback_analysis\<close>.
\<close>

theorem comprehensive_analysis_raises:
  assumes "analysis_cache an url = None
           \<or> (\<exists>d ts. analysis_cache an url = Some (d, ts) \<and> cache_timeout \<le> now - ts)"
  shows "comprehensive_analysis assign_grade get_fallback_analysis now url passes an =
           (Inl (AttributeError ''get_fallback_analysis''), an)
       \<and> (\<forall>r overall. run_passes passes Map.empty = Inr r \<and> calculate_overall_score r = Inr overall
             \<longrightarrow> analysis_try_block assign_grade now url passes an =
                   Inl (AttributeError ''assign_grade''))"
proof
  from analysis_try_block_raises obtain e where
    e: "analysis_try_block assign_grade now url passes an = Inl e" by blast
  from assms have "(case analysis_cache an url of
                      None \<Rightarrow> None
                    | Some (cached_data, timestamp) \<Rightarrow>
                        if now - timestamp < cache_timeout then Some cached_data else None) = None"
    by auto
  then show "comprehensive_analysis assign_grade get_fallback_analysis now url passes an =
               (Inl (AttributeError ''get_fallback_analysis''), an)"
    by (simp add: comprehensive_analysis_def e get_fallback_analysis_undefined)
next
  show "\<forall>r overall. run_passes passes Map.empty = Inr r \<and> calculate_overall_score r = Inr overall
          \<longrightarrow> analysis_try_block assign_grade now url passes an = Inl (AttributeError ''assign_grade'')"
    by (simp add: analysis_try_block_def assign_grade_undefined Let_def)
qed

theorem comprehensive_analysis_raises_witness:
  "analysis_cache new_analyzer ''https://example.com'' = None
   \<and> comprehensive_analysis some_assign_grade some_fallback_analysis 0 ''https://example.com''
         six_good_passes new_analyzer
       = (Inl (AttributeError ''get_fallback_analysis''), new_analyzer)"
proof -
  have h: "analysis_cache new_analyzer ''https://example.com'' = None"
    by (simp add: new_analyzer_def)
  then have "analysis_cache new_analyzer ''https://example.com'' = None
      \<or> (\<exists>d ts. analysis_cache new_analyzer ''https://example.com'' = Some (d, ts)
                 \<and> cache_timeout \<le> 0 - ts)"
    by simp
  from comprehensive_analysis_raises [OF this] h show ?thesis by blast
qed

subsection \<open>Contact extraction\<close>

text \<open>
  C8 (what the code does). Whatever the text of the listing and whatever the patterns
  match, \<open>extract_contact_info\<close> returns the empty dictionary: the first use of
  \<open>re\<close> raises \<open>NameError\<close>, which the \<open>except\<close> branch swallows. For the text
  \<open>Call 555-123-4567\<close> no \<open>phone\<close> field is extracted.
\<close>

theorem extract_contact_info_empty:
  "extract_contact_info findall item_text = Map.empty
   \<and> extract_contact_info findall (Inr ''Call 555-123-4567'') ''phone'' = None"
proof -
  have re: "scraper_global ''re'' = Inl (NameError ''re'')"
    by (simp add: scraper_global_def scraper_module_globals_def)
  have "phone_loop findall t phone_patterns Map.empty = Inl (NameError ''re'')" for t
    by (simp add: phone_patterns_def re)
  then have "extract_contact_info findall it = Map.empty" for it
    by (simp add: extract_contact_info_def split: sum.splits)
  then show ?thesis by simp
qed

subsection \<open>CAPTCHA handling\<close>

text \<open>
  C7 (as stated, refuted). On a page where the marker is still there after the wait
  and on a page where it is gone after the wait, \<open>handle_captcha\<close> does the same: it
  sleeps 30 seconds and returns \<open>True\<close>. It reports no \<open>CaptchaBlocked\<close>.
\<close>

theorem handle_captcha_ignores_persistence:
  "handle_captcha persistent_marker = (True, 30) \<and> handle_captcha transient_marker = (True, 30)"
  by (simp add: handle_captcha_def persistent_marker_def transient_marker_def)

text \<open>
  C7 (amended). \<open>handle_captcha\<close> looks for the marker once; when it finds it, it
  sleeps once for 30 seconds and returns \<open>True\<close>; otherwise, also when the probe
  raises, it returns \<open>False\<close> without sleeping. It never raises. The collection job
  never calls it.
\<close>

theorem handle_captcha_single_wait:
  "handle_captcha page = (if (\<exists>n. page 0 = Inr n \<and> n \<noteq> 0) then (True, 30) else (False, 0))
   \<and> HandleCaptcha \<notin> set (snd (scrape_google_maps_advanced create_stealth_driver
                                  set_page_load_timeout navigate collect quit))"
proof
  show "handle_captcha page = (if (\<exists>n. page 0 = Inr n \<and> n \<noteq> 0) then (True, 30) else (False, 0))"
    by (auto simp: handle_captcha_def split: sum.splits)
next
  have "HandleCaptcha \<notin> set (snd (scrape_body set_page_load_timeout navigate collect))"
    by (simp add: scrape_body_def split: sum.splits)
  then show "HandleCaptcha \<notin> set (snd (scrape_google_maps_advanced create_stealth_driver
                                  set_page_load_timeout navigate collect quit))"
    by (auto simp: scrape_google_maps_advanced_def split: sum.splits prod.splits)
qed

subsection \<open>Keyword submission\<close>

lemma create_keyword_object:
  assumes "map_of kvs ''keyword'' = Some v"
  shows "create_keyword store (Inr (JObj kvs)) db =
           (case store v db of
              Inl e \<Rightarrow> (Inl e, db)
            | Inr (new_id, stored) \<Rightarrow>
                (Inr (201, KeywordCreated new_id stored ''pending''),
                 db @ [\<lparr>kr_id = new_id, kr_keyword = stored, kr_status = ''pending''\<rparr>]))"
proof -
  from assms have ne: "kvs \<noteq> []" by auto
  from assms have "''keyword'' \<in> fst ` set kvs"
    by (metis domI dom_map_of_conv_image_fst)
  then have mem: "''keyword'' \<in> set (map fst kvs)" by simp
  show ?thesis
    using ne mem assms
    by (simp add: create_keyword_def py_truthy_def contains_keyword_def subscript_keyword_def
          Let_def del: set_map split: sum.splits prod.splits)
qed

text \<open>
  C9 (as stated, refuted). A submission whose keyword is the empty string is not
  answered by the rejection of the route: whatever the database does, the empty
  keyword is handed to it like any other, and when the database accepts the row the
  answer is status 201 and a pending keyword row with the empty text is stored.
\<close>

theorem create_keyword_hands_empty_keyword_to_database:
  "\<forall>store db.
      create_keyword store (Inr (JObj [(''keyword'', JStr '''')])) db =
        (case store (JStr '''') db of
           Inl e \<Rightarrow> (Inl e, db)
         | Inr (new_id, stored) \<Rightarrow>
             (Inr (201, KeywordCreated new_id stored ''pending''),
              db @ [\<lparr>kr_id = new_id, kr_keyword = stored, kr_status = ''pending''\<rparr>]))"
  by (simp add: create_keyword_object)

text \<open>
  C9 (amended). A submission whose JSON body is false in Python (null, false, zero, an
  empty string, list or object) or is an object without a \<open>keyword\<close> field is
  rejected with status 400 and nothing is stored. For an object with a \<open>keyword\<close>
  field the route does not look at the value: it hands it to the database, and either
  the database raises, the request fails and nothing is stored, or the answer is status
  201 and one pending keyword row is stored. In every case the table is unchanged or
  has one more row, with status \<open>pending\<close>.
\<close>

theorem create_keyword_requires_field_only:
  "(data \<in> {JNull, JBool False, JNum 0, JStr [], JArr [], JObj []}
      \<or> (\<exists>kvs. data = JObj kvs \<and> ''keyword'' \<notin> fst ` set kvs)
    \<longrightarrow> create_keyword store (Inr data) db = (Inr (400, ErrorResponse ''Keyword is required''), db))
   \<and> (\<forall>kvs v. data = JObj kvs \<and> map_of kvs ''keyword'' = Some v \<longrightarrow>
        create_keyword store (Inr data) db =
          (case store v db of
             Inl e \<Rightarrow> (Inl e, db)
           | Inr (new_id, stored) \<Rightarrow>
               (Inr (201, KeywordCreated new_id stored ''pending''),
                db @ [\<lparr>kr_id = new_id, kr_keyword = stored, kr_status = ''pending''\<rparr>])))
   \<and> (snd (create_keyword store request db) = db
        \<or> (\<exists>row. snd (create_keyword store request db) = db @ [row] \<and> kr_status row = ''pending''))"
proof (intro conjI impI allI)
  assume "data \<in> {JNull, JBool False, JNum 0, JStr [], JArr [], JObj []}
      \<or> (\<exists>kvs. data = JObj kvs \<and> ''keyword'' \<notin> fst ` set kvs)"
  then show "create_keyword store (Inr data) db = (Inr (400, ErrorResponse ''Keyword is required''), db)"
    by (auto simp: create_keyword_def py_truthy_def contains_keyword_def)
next
  fix kvs v
  assume "data = JObj kvs \<and> map_of kvs ''keyword'' = Some v"
  then show "create_keyword store (Inr data) db =
          (case store v db of
             Inl e \<Rightarrow> (Inl e, db)
           | Inr (new_id, stored) \<Rightarrow>
               (Inr (201, KeywordCreated new_id stored ''pending''),
                db @ [\<lparr>kr_id = new_id, kr_keyword = stored, kr_status = ''pending''\<rparr>]))"
    by (simp add: create_keyword_object)
next
  show "snd (create_keyword store request db) = db
        \<or> (\<exists>row. snd (create_keyword store request db) = db @ [row] \<and> kr_status row = ''pending'')"
    by (auto simp: create_keyword_def Let_def split: sum.splits prod.splits)
qed

theorem create_keyword_requires_field_only_witness:
  "create_keyword accepting_store (Inr (JObj [])) [] =
     (Inr (400, ErrorResponse ''Keyword is required''), [])
   \<and> create_keyword accepting_store
       (Inr (JObj [(''keyword'', JStr ''test restaurants''), (''priority'', JNum 2)])) [] =
       (Inr (201, KeywordCreated 1 (JStr ''test restaurants'') ''pending''),
        [\<lparr>kr_id = 1, kr_keyword = JStr ''test restaurants'', kr_status = ''pending''\<rparr>])
   \<and> create_keyword raising_store
       (Inr (JObj [(''keyword'', JStr ''test restaurants''), (''priority'', JNum 2)])) [] =
       (Inl (OtherException ''InvalidRequestError''), [])"
proof -
  from create_keyword_requires_field_only [of "JObj []" accepting_store "[]"]
  have a: "create_keyword accepting_store (Inr (JObj [])) [] =
     (Inr (400, ErrorResponse ''Keyword is required''), [])"
    by simp
  from create_keyword_requires_field_only
    [of "JObj [(''keyword'', JStr ''test restaurants''), (''priority'', JNum 2)]"
        accepting_store "[]"]
  have b: "create_keyword accepting_store
       (Inr (JObj [(''keyword'', JStr ''test restaurants''), (''priority'', JNum 2)])) [] =
       (Inr (201, KeywordCreated 1 (JStr ''test restaurants'') ''pending''),
        [\<lparr>kr_id = 1, kr_keyword = JStr ''test restaurants'', kr_status = ''pending''\<rparr>])"
    by (simp add: accepting_store_def)
  from create_keyword_requires_field_only
    [of "JObj [(''keyword'', JStr ''test restaurants''), (''priority'', JNum 2)]"
        raising_store "[]"]
  have c: "create_keyword raising_store
       (Inr (JObj [(''keyword'', JStr ''test restaurants''), (''priority'', JNum 2)])) [] =
       (Inl (OtherException ''InvalidRequestError''), [])"
    by (simp add: raising_store_def)
  from a b c show ?thesis by blast
qed

end
